theory Spec2Isabelle
  imports Main "HOL-Library.Sublist" "HOL-Library.AList"
begin

section \<open>Python values used by the service\<close>

text \<open>
  A Python \<^verbatim>\<open>str\<close> is a sequence of Unicode code points: a list of natural numbers.
  \<open>ustr\<close> reads a literal of this file, written in ASCII, as such a sequence; the
  characters of \<^verbatim>\<open>main.py\<close> that are not ASCII (one dash and the avatars) are written
  as code points.
\<close>

type_synonym str = "nat list"

definition ustr :: "string \<Rightarrow> str" where
  "ustr cs = map of_char cs"

text \<open>
  \<^verbatim>\<open>s.lower()\<close> goes through the string from left to right and replaces each code
  point: an ASCII code point by its lower case (\<open>A\<close> to \<open>Z\<close> become \<open>a\<close> to \<open>z\<close>, the others
  stay), any other code point by what the Unicode database of the Python runtime gives
  for it, which is one to three code points and, for the capital sigma, depends on the
  neighbours in the string. That database is not part of the repository. It is a
  parameter of the model, \<open>U\<close> of type \<open>lower_table\<close>: \<open>U s i\<close> is the replacement of the
  code point at position \<open>i\<close> of \<open>s\<close>, consulted for the code points from 128 on only.
  Every statement below holds for every such table.
\<close>

definition tolower :: "nat \<Rightarrow> nat" where
  "tolower c = (if 65 \<le> c \<and> c \<le> 90 then c + 32 else c)"

type_synonym lower_table = "str \<Rightarrow> nat \<Rightarrow> str"

text \<open>The loop of \<^verbatim>\<open>lower\<close> at position \<open>i\<close> of \<open>s\<close>, with the code points still to come.\<close>

fun lower_from :: "lower_table \<Rightarrow> str \<Rightarrow> nat \<Rightarrow> str \<Rightarrow> str" where
  "lower_from U s i [] = []"
| "lower_from U s i (c # cs) =
     (if c < 128 then [tolower c] else U s i) @ lower_from U s (Suc i) cs"

text \<open>\<^verbatim>\<open>s.lower()\<close>\<close>

definition lower :: "lower_table \<Rightarrow> str \<Rightarrow> str" where
  "lower U s = lower_from U s 0 s"

text \<open>
  The white space of Python, which \<^verbatim>\<open>strip\<close> removes: the 29 code points of which
  \<^verbatim>\<open>str.isspace\<close> holds.
\<close>

definition isspace :: "nat \<Rightarrow> bool" where
  "isspace c =
    (c \<in> set [0x09, 0x0A, 0x0B, 0x0C, 0x0D, 0x1C, 0x1D, 0x1E, 0x1F, 0x20, 0x85, 0xA0,
              0x1680, 0x2000, 0x2001, 0x2002, 0x2003, 0x2004, 0x2005, 0x2006, 0x2007,
              0x2008, 0x2009, 0x200A, 0x2028, 0x2029, 0x202F, 0x205F, 0x3000])"

text \<open>\<^verbatim>\<open>s.strip()\<close>: leading and trailing white space removed.\<close>

definition strip :: "str \<Rightarrow> str" where
  "strip s = rev (dropWhile isspace (rev (dropWhile isspace s)))"

text \<open>
  \<^verbatim>\<open>w in s\<close> on strings is \<^term>\<open>sublist w s\<close>: \<open>w\<close> occurs in \<open>s\<close> as a contiguous
  block. \<^verbatim>\<open>d.get(k, default)\<close> on a dictionary, kept as an association list:
\<close>

definition dict_get :: "('k \<times> 'v) list \<Rightarrow> 'k \<Rightarrow> 'v \<Rightarrow> 'v" where
  "dict_get d k dflt = (case map_of d k of None \<Rightarrow> dflt | Some v \<Rightarrow> v)"

section \<open>The reply synthesizer: \<^verbatim>\<open>generate_guru_reply\<close>\<close>

definition preface :: "(str \<times> str) list" where
  "preface =
    [(ustr ''zen'', ustr ''Zen Reflection:''),
     (ustr ''yogi'', ustr ''Yogic Guidance:''),
     (ustr ''astrologer'', ustr ''Astrological Insight:''),
     (ustr ''monk'', ustr ''Monastic Wisdom:''),
     (ustr ''sufi'', ustr ''Sufi Whisper:'')]"

text \<open>The dash of the first entry is U+2014.\<close>

definition tailoring :: "(str \<times> str) list" where
  "tailoring =
    [(ustr ''zen'', ustr '' Embrace simplicity'' @ [0x2014]
         @ ustr ''wash the bowl, one mindful action at a time.''),
     (ustr ''yogi'', ustr '' Align breath and intention; the posture of your day shapes the posture of your mind.''),
     (ustr ''astrologer'', ustr '' Trust timing; not every seed sprouts in the same season.''),
     (ustr ''monk'', ustr '' Choose quiet courage. Consistency is a humble miracle.''),
     (ustr ''sufi'', ustr '' Let love polish the heart; dance gently with what is.'')]"

text \<open>The keyword lists of the four topic buckets, in the order of the \<^verbatim>\<open>elif\<close> chain.\<close>

definition stress_words :: "str list" where
  "stress_words = [ustr ''stress'', ustr ''anxious'', ustr ''anxiety'', ustr ''overwhelmed'']"

definition purpose_words :: "str list" where
  "purpose_words = [ustr ''purpose'', ustr ''meaning'', ustr ''direction'']"

definition love_words :: "str list" where
  "love_words = [ustr ''love'', ustr ''relationship'', ustr ''breakup'', ustr ''heart'']"

definition work_words :: "str list" where
  "work_words = [ustr ''career'', ustr ''job'', ustr ''work'']"

text \<open>The six core replies.\<close>

definition core_silence :: str where
  "core_silence = ustr ''Silence can be a teacher. Breathe, observe, and allow the next question to arise naturally.''"

definition core_stress :: str where
  "core_stress = ustr ''Place a hand on your heart. Inhale for 4, hold for 4, exhale for 6.''
     @ ustr '' Notice one thing you can see, hear, and feel. Your mind will follow your breath.''"

definition core_purpose :: str where
  "core_purpose = ustr ''Purpose unfolds in small, honest steps. Name one value you refuse to abandon;''
     @ ustr '' take one action today that honors it.''"

definition core_love :: str where
  "core_love = ustr ''Love matures through presence and boundaries. Speak your needs with kindness;''
     @ ustr '' listen without preparing your defense.''"

definition core_work :: str where
  "core_work = ustr ''Treat your work as a dojo: show up, practice, reflect. Choose the smallest improvement''
     @ ustr '' you can repeat for 7 days; let results compound.''"

definition core_default :: str where
  "core_default = ustr ''Return to the body: relax the jaw, soften the shoulders. Ask: What is truly needed now?''
     @ ustr '' Let the simple, compassionate response lead your next move.''"

text \<open>\<^verbatim>\<open>any(w in msg.lower() for w in ws)\<close>\<close>

definition any_in :: "lower_table \<Rightarrow> str list \<Rightarrow> str \<Rightarrow> bool" where
  "any_in U ws msg = list_ex (\<lambda>w. sublist w (lower U msg)) ws"

text \<open>
  The \<^verbatim>\<open>if\<close>/\<^verbatim>\<open>elif\<close> chain of lines 44 to 70, which sets \<^verbatim>\<open>core\<close> from the trimmed
  message \<^verbatim>\<open>msg\<close>.
\<close>

definition core_reply :: "lower_table \<Rightarrow> str \<Rightarrow> str" where
  "core_reply U msg =
    (if msg = [] then core_silence
     else if any_in U stress_words msg then core_stress
     else if any_in U purpose_words msg then core_purpose
     else if any_in U love_words msg then core_love
     else if any_in U work_words msg then core_work
     else core_default)"

definition generate_guru_reply :: "lower_table \<Rightarrow> str \<Rightarrow> str \<Rightarrow> str" where
  "generate_guru_reply U archetype user_message =
    (let msg = strip user_message;
         a = lower U archetype;
         opening = dict_get preface a (ustr ''Guidance:'');
         core = core_reply U msg
     in opening @ ustr '' '' @ core @ dict_get tailoring a [])"

section \<open>Documents, errors and the document store\<close>

text \<open>
  The values stored in the documents this service reads and writes are strings and
  \<^verbatim>\<open>None\<close>. A document is a dictionary with string keys, kept as an association list
  in insertion order. \<open>py_str\<close> is Python's \<^verbatim>\<open>str(v)\<close>; \<open>opt_val\<close> reads an
  \<^verbatim>\<open>Optional[str]\<close> as a value.
\<close>

datatype pyval = VNone | VStr str

type_synonym doc = "(str \<times> pyval) list"

fun py_str :: "pyval \<Rightarrow> str" where
  "py_str VNone = (ustr ''None'')"
| "py_str (VStr s) = s"

fun opt_val :: "str option \<Rightarrow> pyval" where
  "opt_val None = VNone"
| "opt_val (Some s) = VStr s"

text \<open>
  The filter documents passed to \<^verbatim>\<open>get_documents\<close>: \<^verbatim>\<open>{k: v}\<close> and
  \<^verbatim>\<open>{"$or": [...]}\<close>.
\<close>

datatype query = Eq str pyval | Or "query list"

text \<open>
  The failures of a request: the \<^verbatim>\<open>HTTPException\<close> raised by \<^verbatim>\<open>ask_guru\<close>, the
  \<^verbatim>\<open>AttributeError\<close> of \<^verbatim>\<open>archetype.lower()\<close> on a value that is not a string, and
  whatever exception a store call raises.
\<close>

datatype error = HTTPException nat str | AttributeError | StoreError

text \<open>
  The module \<^verbatim>\<open>database\<close> is imported by \<^verbatim>\<open>main.py\<close> and is not part of the sources.
  Its two functions are parameters of the model: each takes the state of the database
  and returns the value or the exception raised, with the state it leaves. The
  functions of \<^verbatim>\<open>main.py\<close> below are stated for every such pair.
\<close>

type_synonym 'db get_documents = "str \<Rightarrow> query option \<Rightarrow> 'db \<Rightarrow> (error + doc list) \<times> 'db"

type_synonym 'db create_document = "str \<Rightarrow> doc \<Rightarrow> 'db \<Rightarrow> (error + str) \<times> 'db"

section \<open>Listing personas: \<^verbatim>\<open>list_gurus\<close>\<close>

definition defaults :: "doc list" where
  "defaults =
    [[(ustr ''name'', VStr (ustr ''Zen Teacher'')), (ustr ''archetype'', VStr (ustr ''zen'')),
      (ustr ''avatar'', VStr [0x1FAB7]),
      (ustr ''description'', VStr (ustr ''Quiet clarity and koan-like reflections.''))],
     [(ustr ''name'', VStr (ustr ''Yogi Guide'')), (ustr ''archetype'', VStr (ustr ''yogi'')),
      (ustr ''avatar'', VStr [0x1F9D8]),
      (ustr ''description'', VStr (ustr ''Breath, alignment, and daily practice.''))],
     [(ustr ''name'', VStr (ustr ''Astrologer'')), (ustr ''archetype'', VStr (ustr ''astrologer'')),
      (ustr ''avatar'', VStr [0x2728]),
      (ustr ''description'', VStr (ustr ''Patterns of time and temperament.''))],
     [(ustr ''name'', VStr (ustr ''Monk Mentor'')), (ustr ''archetype'', VStr (ustr ''monk'')),
      (ustr ''avatar'', VStr [0x1F64F]),
      (ustr ''description'', VStr (ustr ''Discipline, devotion, and gentle routine.''))],
     [(ustr ''name'', VStr (ustr ''Sufi Friend'')), (ustr ''archetype'', VStr (ustr ''sufi'')),
      (ustr ''avatar'', VStr [0x1F54A, 0xFE0F]),
      (ustr ''description'', VStr (ustr ''Heart-centered presence and poetry.''))]]"

text \<open>
  The seeding loop: one \<^verbatim>\<open>create_document("guru", g)\<close> for each default, inside its own
  \<^verbatim>\<open>try\<close> whose handler is \<^verbatim>\<open>pass\<close>, so the outcome of each call is dropped and
  only the state it leaves is kept.
\<close>

fun seed :: "'db create_document \<Rightarrow> doc list \<Rightarrow> 'db \<Rightarrow> 'db" where
  "seed cd [] db = db"
| "seed cd (g # gs) db = seed cd gs (snd (cd (ustr ''guru'') g db))"

text \<open>
  The body of the last loop: the document without its \<^verbatim>\<open>_id\<close> key and, when it had
  one, with \<^verbatim>\<open>id\<close> set to \<^verbatim>\<open>str(d["_id"])\<close>.
\<close>

definition normalize :: "doc \<Rightarrow> doc" where
  "normalize d =
    (let d2 = filter (\<lambda>(k, v). k \<noteq> (ustr ''_id'')) d
     in case map_of d (ustr ''_id'') of
          None \<Rightarrow> d2
        | Some i \<Rightarrow> AList.update (ustr ''id'') (VStr (py_str i)) d2)"

text \<open>The result is the list under the key \<^verbatim>\<open>gurus\<close> of the response.\<close>

definition list_gurus :: "'db get_documents \<Rightarrow> 'db create_document \<Rightarrow> 'db \<Rightarrow> doc list \<times> 'db" where
  "list_gurus gd cd db =
    (let (docs, db') =
       (case gd (ustr ''guru'') None db of
          (Inl e, db1) \<Rightarrow> (defaults, db1)
        | (Inr docs, db1) \<Rightarrow>
            if docs = [] then
              (case gd (ustr ''guru'') None (seed cd defaults db1) of
                 (Inl e, db2) \<Rightarrow> (defaults, db2)
               | (Inr docs', db2) \<Rightarrow> (docs', db2))
            else (docs, db1))
     in (map normalize docs, db'))"

section \<open>Handling an exchange: \<^verbatim>\<open>ask_guru\<close>\<close>

record AskRequest =
  conversation_id :: "str option"
  guru_id :: str
  user_message :: str
  user_name :: "str option"

record AskResponse =
  conversation_id :: str
  reply :: str

text \<open>The filter of line 126.\<close>

definition guru_query :: "str \<Rightarrow> query" where
  "guru_query gid = Or [Eq (ustr ''archetype'') (VStr gid), Eq (ustr ''_id'') (VStr gid)]"

text \<open>The list literal of lines 132 to 138.\<close>

definition fallback_gurus :: "doc list" where
  "fallback_gurus =
    [[(ustr ''name'', VStr (ustr ''Zen Teacher'')), (ustr ''archetype'', VStr (ustr ''zen''))],
     [(ustr ''name'', VStr (ustr ''Yogi Guide'')), (ustr ''archetype'', VStr (ustr ''yogi''))],
     [(ustr ''name'', VStr (ustr ''Astrologer'')), (ustr ''archetype'', VStr (ustr ''astrologer''))],
     [(ustr ''name'', VStr (ustr ''Monk Mentor'')), (ustr ''archetype'', VStr (ustr ''monk''))],
     [(ustr ''name'', VStr (ustr ''Sufi Friend'')), (ustr ''archetype'', VStr (ustr ''sufi''))]]"

text \<open>
  Lines 123 to 143: the query, whose exception is swallowed, then the first stored
  document, or the first default whose archetype is \<open>gid\<close>. The result is the variable
  \<^verbatim>\<open>guru\<close>, \<open>None\<close> when it is still \<^verbatim>\<open>None\<close>.
\<close>

definition resolve_guru :: "'db get_documents \<Rightarrow> str \<Rightarrow> 'db \<Rightarrow> doc option \<times> 'db" where
  "resolve_guru gd gid db =
    (let (guru_docs, db1) =
       (case gd (ustr ''guru'') (Some (guru_query gid)) db of
          (Inl e, db1) \<Rightarrow> ([], db1)
        | (Inr ds, db1) \<Rightarrow> (ds, db1))
     in (case guru_docs of
           [] \<Rightarrow> find (\<lambda>g. map_of g (ustr ''archetype'') = Some (VStr gid)) fallback_gurus
         | g # rest \<Rightarrow> Some g,
         db1))"

text \<open>\<^verbatim>\<open>not conv_id\<close> on an \<^verbatim>\<open>Optional[str]\<close>: \<^verbatim>\<open>None\<close> and the empty string.\<close>

definition falsy :: "str option \<Rightarrow> bool" where
  "falsy c = (c = None \<or> c = Some [])"

definition conversation_doc :: "AskRequest \<Rightarrow> doc" where
  "conversation_doc payload =
    [(ustr ''guru_id'', VStr (guru_id payload)),
     (ustr ''user_name'', opt_val (user_name payload)),
     (ustr ''title'', VNone)]"

definition message_doc :: "str option \<Rightarrow> str \<Rightarrow> str \<Rightarrow> str \<Rightarrow> doc" where
  "message_doc conv_id role content gid =
    [(ustr ''conversation_id'', opt_val conv_id),
     (ustr ''role'', VStr role),
     (ustr ''content'', VStr content),
     (ustr ''guru_id'', VStr gid)]"

text \<open>
  The body of the \<^verbatim>\<open>try\<close> of lines 153 to 173. It stops at the first call that raises;
  the value of the local variable \<^verbatim>\<open>conv_id\<close> at that point is returned with the
  outcome, since the handler reads it.
\<close>

definition persist_body ::
  "'db create_document \<Rightarrow> AskRequest \<Rightarrow> str \<Rightarrow> 'db \<Rightarrow> (error + unit) \<times> str option \<times> 'db" where
  "persist_body cd payload reply' db =
    (let conv_id = AskRequest.conversation_id payload
     in case (if falsy conv_id
              then (case cd (ustr ''conversation'') (conversation_doc payload) db of
                      (Inl e, db1) \<Rightarrow> (Inl e, conv_id, db1)
                    | (Inr i, db1) \<Rightarrow> (Inr (), Some i, db1))
              else (Inr (), conv_id, db)) of
          (Inl e, conv_id, db1) \<Rightarrow> (Inl e, conv_id, db1)
        | (Inr u, conv_id, db1) \<Rightarrow>
            (case cd (ustr ''message'')
                    (message_doc conv_id (ustr ''user'') (user_message payload) (guru_id payload)) db1 of
               (Inl e, db2) \<Rightarrow> (Inl e, conv_id, db2)
             | (Inr i, db2) \<Rightarrow>
                 (case cd (ustr ''message'')
                         (message_doc conv_id (ustr ''guru'') reply' (guru_id payload)) db2 of
                    (Inl e, db3) \<Rightarrow> (Inl e, conv_id, db3)
                  | (Inr j, db3) \<Rightarrow> (Inr (), conv_id, db3))))"

text \<open>Lines 152 to 177: the \<^verbatim>\<open>try\<close> with its handler.\<close>

definition persist ::
  "'db create_document \<Rightarrow> AskRequest \<Rightarrow> str \<Rightarrow> 'db \<Rightarrow> str option \<times> 'db" where
  "persist cd payload reply' db =
    (case persist_body cd payload reply' db of
       (Inl e, conv_id, db') \<Rightarrow> (if falsy conv_id then Some (ustr ''temp-session'') else conv_id, db')
     | (Inr u, conv_id, db') \<Rightarrow> (conv_id, db'))"

text \<open>
  The local variable \<^verbatim>\<open>reply\<close> is written \<open>reply'\<close>, the name being taken by the
  field. \<^verbatim>\<open>not guru\<close> holds of \<^verbatim>\<open>None\<close> and of the empty dictionary. The archetype read by
  \<^verbatim>\<open>guru.get("archetype", "zen")\<close> is any stored value; \<^verbatim>\<open>generate_guru_reply\<close> calls
  \<^verbatim>\<open>lower\<close> on it, which raises on \<^verbatim>\<open>None\<close>.
\<close>

definition ask_guru ::
  "lower_table \<Rightarrow> 'db get_documents \<Rightarrow> 'db create_document \<Rightarrow> AskRequest \<Rightarrow> 'db
    \<Rightarrow> (error + AskResponse) \<times> 'db" where
  "ask_guru U gd cd payload db =
    (case resolve_guru gd (guru_id payload) db of
       (None, db1) \<Rightarrow> (Inl (HTTPException 404 (ustr ''Guru not found'')), db1)
     | (Some guru, db1) \<Rightarrow>
         if guru = [] then (Inl (HTTPException 404 (ustr ''Guru not found'')), db1)
         else
           (case dict_get guru (ustr ''archetype'') (VStr (ustr ''zen'')) of
              VNone \<Rightarrow> (Inl AttributeError, db1)
            | VStr archetype \<Rightarrow>
                (let reply' = generate_guru_reply U archetype (user_message payload);
                     (conv_id, db2) = persist cd payload reply' db1
                 in (Inr \<lparr>conversation_id = py_str (opt_val conv_id), reply = reply'\<rparr>, db2))))"

section \<open>A document store\<close>

text \<open>
  Modelled from the spec: the document store behind \<^verbatim>\<open>database.get_documents\<close> and
  \<^verbatim>\<open>database.create_document\<close>, which is not part of the sources. The spec gives it
  two capabilities, \<open>insert(collection, document) -> generated_id\<close> and
  \<open>query(collection, filter?) -> ordered sequence of documents\<close>, each of which may
  raise; an inserted document is visible to the queries that follow, and carries the
  identifier the store assigned under \<^verbatim>\<open>_id\<close>. The store is a log of the inserted
  documents with their collection. The format of the identifiers is not fixed by the
  spec: the store carries its own supply \<open>fresh\<close>. Whether an operation raises is not
  decided by the service either: \<open>outage\<close> says for each operation, counted by
  \<open>clock\<close>, whether it raises.
\<close>

record store =
  documents :: "(str \<times> doc) list"
  issued :: nat
  fresh :: "nat \<Rightarrow> str"
  outage :: "nat \<Rightarrow> bool"
  clock :: nat

text \<open>Modelled from the spec: a document matches a filter by equality of the named field.\<close>

fun matches :: "query \<Rightarrow> doc \<Rightarrow> bool" where
  "matches (Eq k v) d = (map_of d k = Some v)"
| "matches (Or qs) d = list_ex (\<lambda>q. matches q d) qs"

text \<open>Modelled from the spec: the documents of a collection, filtered, in insertion order.\<close>

definition select :: "str \<Rightarrow> query option \<Rightarrow> store \<Rightarrow> doc list" where
  "select c q db =
    map snd (filter (\<lambda>(c', d). c' = c \<and> (case q of None \<Rightarrow> True | Some f \<Rightarrow> matches f d))
               (documents db))"

text \<open>Modelled from the spec: \<open>query\<close>, which raises during an outage.\<close>

definition store_get_documents :: "store get_documents" where
  "store_get_documents c q db =
    (if outage db (clock db) then (Inl StoreError, db\<lparr>clock := Suc (clock db)\<rparr>)
     else (Inr (select c q db), db\<lparr>clock := Suc (clock db)\<rparr>))"

text \<open>
  Modelled from the spec: \<open>insert\<close>, which raises during an outage and otherwise appends
  the document, with the next identifier under \<^verbatim>\<open>_id\<close>, and returns that identifier.
\<close>

definition store_create_document :: "store create_document" where
  "store_create_document c d db =
    (if outage db (clock db) then (Inl StoreError, db\<lparr>clock := Suc (clock db)\<rparr>)
     else (let i = fresh db (issued db)
           in (Inr i, db\<lparr>documents := documents db @ [(c, AList.update (ustr ''_id'') (VStr i) d)],
                         issued := Suc (issued db),
                         clock := Suc (clock db)\<rparr>)))"

section \<open>Notions of the specification\<close>

text \<open>The five known archetypes.\<close>

definition known_archetypes :: "str list" where
  "known_archetypes = [(ustr ''zen''), (ustr ''yogi''), (ustr ''astrologer''), (ustr ''monk''), (ustr ''sufi'')]"

text \<open>
  Two strings are equal up to letter case when they have the same length and, position
  by position, the same code point or the two cases of one of the letters \<open>A\<close> to \<open>Z\<close>
  (code points 65 to 90, the lower case 32 further). This is stated without \<open>lower\<close>.
\<close>

definition same_caseless :: "str \<Rightarrow> str \<Rightarrow> bool" where
  "same_caseless s t =
    list_all2 (\<lambda>c d. c = d \<or> (65 \<le> c \<and> c \<le> 90 \<and> d = c + 32)
                        \<or> (65 \<le> d \<and> d \<le> 90 \<and> c = d + 32)) s t"

text \<open>
  A message mentions a bucket when one of the bucket's keywords occurs in it as a
  case-insensitive substring: some contiguous block of the message, as sent, equals the
  keyword up to letter case.
\<close>

definition mentions :: "str list \<Rightarrow> str \<Rightarrow> bool" where
  "mentions ws m = (\<exists>w \<in> set ws. \<exists>u. sublist u m \<and> same_caseless u w)"

text \<open>
  What the keywords of the four buckets have in common: each is not empty and made of
  the letters \<open>a\<close> to \<open>z\<close> (code points 97 to 122).
\<close>

definition keyword :: "str \<Rightarrow> bool" where
  "keyword w = (w \<noteq> [] \<and> (\<forall>c \<in> set w. 97 \<le> c \<and> c \<le> 122))"

section \<open>A store to run the service on\<close>

text \<open>
  An empty store with no outage, whose identifiers are \<open>i\<close>, \<open>ii\<close>, \<open>iii\<close> and so on
  (105 is the code point of \<open>i\<close>).
\<close>

definition example_store :: store where
  "example_store =
    \<lparr>documents = [], issued = 0, fresh = (\<lambda>n. replicate (Suc n) 105),
     outage = (\<lambda>n. False), clock = 0\<rparr>"

definition example_request :: AskRequest where
  "example_request =
    \<lparr>AskRequest.conversation_id = None, guru_id = (ustr ''zen''),
     user_message = (ustr ''I am stressed about work''), user_name = None\<rparr>"

text \<open>A store that holds two personas of a sixth archetype.\<close>

definition oracle_store :: store where
  "oracle_store =
    example_store\<lparr>documents :=
      [(ustr ''guru'', [(ustr ''name'', VStr (ustr ''Oracle'')), (ustr ''archetype'', VStr (ustr ''oracle'')),
                   (ustr ''_id'', VStr (ustr ''g1''))]),
       (ustr ''guru'', [(ustr ''name'', VStr (ustr ''Second Oracle'')), (ustr ''archetype'', VStr (ustr ''oracle'')),
                   (ustr ''_id'', VStr (ustr ''g2''))])]\<rparr>"

text \<open>
  A lower-case table to run the examples with: the two code points beyond ASCII whose
  lower case contains an ASCII letter, the Kelvin sign U+212A and the dotted capital I
  U+0130, are mapped as Python does; every other code point is left as it is.
\<close>

definition sample_table :: lower_table where
  "sample_table s i =
    (if s ! i = 0x212A then [0x6B] else if s ! i = 0x130 then [0x69, 0x307] else [s ! i])"

section \<open>Strings: literals, case and white space\<close>

lemma ustr_eq_iff [simp]: "ustr s = ustr t \<longleftrightarrow> s = t"
  by (simp add: ustr_def inj_map_eq_map inj_on_def)

lemma ustr_Nil [simp]: "ustr [] = []"
  by (simp add: ustr_def)

lemma ustr_eq_Nil [simp]: "ustr s = [] \<longleftrightarrow> s = []" "[] = ustr s \<longleftrightarrow> s = []"
  by (auto simp: ustr_def)

lemma lower_from_append:
  "lower_from U s i (xs @ ys) = lower_from U s i xs @ lower_from U s (i + length xs) ys"
  by (induction xs arbitrary: i) simp_all

lemma lower_from_ascii: "\<forall>c \<in> set u. c < 128 \<Longrightarrow> lower_from U s i u = map tolower u"
  by (induction u arbitrary: i) simp_all

lemma lower_ascii: "\<forall>c \<in> set s. c < 128 \<Longrightarrow> lower U s = map tolower s"
  by (simp add: lower_def lower_from_ascii)

text \<open>
  A block of ASCII code points of a string is lower-cased in place, whatever surrounds
  it and whatever the table is.
\<close>

lemma lower_block:
  assumes "sublist u s" and "\<forall>c \<in> set u. c < 128"
  shows "sublist (map tolower u) (lower U s)"
proof -
  from assms(1) obtain ps ss where s: "s = ps @ u @ ss"
    by (auto simp: sublist_def)
  have "lower_from U s 0 (ps @ u @ ss)
      = lower_from U s 0 ps @ map tolower u @ lower_from U s (length ps + length u) ss"
    using assms(2) by (simp add: lower_from_append lower_from_ascii)
  then have "lower U s
      = lower_from U s 0 ps @ map tolower u @ lower_from U s (length ps + length u) ss"
    by (simp add: lower_def s [symmetric])
  then show ?thesis
    by simp
qed

lemma letter_plain:
  "(65 \<le> c \<and> c \<le> 90) \<or> (97 \<le> c \<and> c \<le> 122) \<Longrightarrow> \<not> isspace c \<and> c < (128::nat)"
  by (auto simp: isspace_def)

text \<open>
  A string equal up to letter case to a string of the letters \<open>a\<close> to \<open>z\<close> is made of
  ASCII letters, and its lower case is that string.
\<close>

lemma same_caseless_letters:
  "same_caseless u w \<Longrightarrow> \<forall>d \<in> set w. 97 \<le> d \<and> d \<le> 122 \<Longrightarrow>
    (\<forall>c \<in> set u. (65 \<le> c \<and> c \<le> 90) \<or> (97 \<le> c \<and> c \<le> 122)) \<and> map tolower u = w"
  unfolding same_caseless_def
  by (induction u w rule: list_all2_induct) (auto simp: tolower_def)

lemma same_caseless_lower:
  assumes "same_caseless u w" and "\<forall>d \<in> set w. 97 \<le> d \<and> d \<le> 122"
  shows "lower U u = w"
proof -
  from same_caseless_letters [OF assms]
  have l: "\<forall>c \<in> set u. (65 \<le> c \<and> c \<le> 90) \<or> (97 \<le> c \<and> c \<le> 122)" and m: "map tolower u = w"
    by simp_all
  from l have "\<forall>c \<in> set u. c < 128"
    using letter_plain by blast
  with m show ?thesis
    by (simp add: lower_ascii)
qed

text \<open>A block that does not start with a dropped code point survives \<open>dropWhile\<close>.\<close>

lemma sublist_dropWhile_keep:
  "sublist w s \<Longrightarrow> w \<noteq> [] \<Longrightarrow> \<not> P (hd w) \<Longrightarrow> sublist w (dropWhile P s)"
proof (induction s)
  case Nil
  then show ?case by simp
next
  case (Cons c cs)
  show ?case
  proof (cases "P c")
    case True
    from Cons.prems have "\<not> prefix w (c # cs)"
      using True by (cases w) auto
    with Cons.prems(1) have "sublist w cs"
      by (simp add: sublist_Cons_right)
    with Cons.IH Cons.prems True show ?thesis by simp
  next
    case False
    with Cons.prems show ?thesis by simp
  qed
qed

lemma sublist_strip:
  assumes "sublist w s" and "w \<noteq> []" and "\<not> isspace (hd w)" and "\<not> isspace (last w)"
  shows "sublist w (strip s)"
proof -
  have "sublist w (dropWhile isspace s)"
    using assms by (simp add: sublist_dropWhile_keep)
  then have "sublist (rev w) (rev (dropWhile isspace s))"
    by simp
  then have "sublist (rev w) (dropWhile isspace (rev (dropWhile isspace s)))"
    using assms by (intro sublist_dropWhile_keep) (simp_all add: hd_rev)
  then show ?thesis
    by (simp add: strip_def sublist_rev_right)
qed

section \<open>The specification's notion passes the synthesizer's test\<close>

text \<open>
  A case-insensitive occurrence of a keyword in the message as sent is an occurrence of
  the keyword in the trimmed, lower-cased message, which is what the code tests.
\<close>

lemma mentions_any_in:
  assumes "\<forall>w \<in> set ws. keyword w" and "mentions ws m"
  shows "any_in U ws (strip m)"
proof -
  from assms(2) obtain w u where w: "w \<in> set ws" and u: "sublist u m" "same_caseless u w"
    by (auto simp: mentions_def)
  from w assms(1) have k: "w \<noteq> []" "\<forall>d \<in> set w. 97 \<le> d \<and> d \<le> 122"
    by (auto simp: keyword_def)
  from same_caseless_letters [OF u(2) k(2)]
  have l: "\<forall>c \<in> set u. (65 \<le> c \<and> c \<le> 90) \<or> (97 \<le> c \<and> c \<le> 122)" and m: "map tolower u = w"
    by simp_all
  from m k(1) have ne: "u \<noteq> []"
    by auto
  then have "hd u \<in> set u" "last u \<in> set u"
    by simp_all
  with l have "\<not> isspace (hd u)" "\<not> isspace (last u)"
    using letter_plain by blast+
  with u(1) ne have "sublist u (strip m)"
    by (simp add: sublist_strip)
  moreover from l have "\<forall>c \<in> set u. c < 128"
    using letter_plain by blast
  ultimately have "sublist (map tolower u) (lower U (strip m))"
    by (rule lower_block)
  with m w show ?thesis
    by (auto simp: any_in_def list_ex_iff)
qed

lemma stress_keywords: "\<forall>w \<in> set stress_words. keyword w"
  by (simp add: keyword_def stress_words_def ustr_def)

lemma purpose_keywords: "\<forall>w \<in> set purpose_words. keyword w"
  by (simp add: keyword_def purpose_words_def ustr_def)

lemma love_keywords: "\<forall>w \<in> set love_words. keyword w"
  by (simp add: keyword_def love_words_def ustr_def)

lemma work_keywords: "\<forall>w \<in> set work_words. keyword w"
  by (simp add: keyword_def work_words_def ustr_def)

lemma known_letters: "k \<in> set known_archetypes \<Longrightarrow> \<forall>d \<in> set k. 97 \<le> d \<and> d \<le> 122"
  by (auto simp: known_archetypes_def ustr_def)

lemma any_in_nonempty: "\<forall>w \<in> set ws. keyword w \<Longrightarrow> any_in U ws msg \<Longrightarrow> msg \<noteq> []"
  by (auto simp: any_in_def list_ex_iff keyword_def lower_def)

lemma mentions_nonempty: "\<forall>w \<in> set ws. keyword w \<Longrightarrow> mentions ws m \<Longrightarrow> strip m \<noteq> []"
  using any_in_nonempty [of ws "\<lambda>s i. []" "strip m"] mentions_any_in [of ws m "\<lambda>s i. []"]
  by blast

lemma reply_composed:
  "generate_guru_reply U a m =
    dict_get preface (lower U a) (ustr ''Guidance:'') @ ustr '' '' @ core_reply U (strip m)
      @ dict_get tailoring (lower U a) []"
  by (simp add: generate_guru_reply_def Let_def)

text \<open>
  Conversely, for a message of ASCII code points, where no table is consulted: an
  occurrence of a keyword in the trimmed, lower-cased message comes from a
  case-insensitive occurrence in the message as sent.
\<close>

lemma strip_sublist: "sublist (strip s) s"
proof -
  have "suffix (dropWhile isspace (rev (dropWhile isspace s))) (rev (dropWhile isspace s))"
    by (rule suffix_dropWhile)
  then have "prefix (strip s) (dropWhile isspace s)"
    by (simp add: strip_def suffix_to_prefix)
  then have "sublist (strip s) (dropWhile isspace s)"
    by (rule prefix_imp_sublist)
  moreover have "sublist (dropWhile isspace s) s"
    by (rule suffix_imp_sublist) (rule suffix_dropWhile)
  ultimately show ?thesis
    by (rule sublist_order.order.trans)
qed

lemma same_caseless_tolower: "same_caseless u (map tolower u)"
  by (simp add: same_caseless_def list_all2_map2 list_all2_same tolower_def)

lemma any_in_mentions:
  assumes "\<forall>c \<in> set m. c < 128" and "any_in U ws (strip m)"
  shows "mentions ws m"
proof -
  have "set (strip m) \<subseteq> set m"
    using strip_sublist by (rule set_mono_sublist)
  with assms(1) have "lower U (strip m) = map tolower (strip m)"
    by (intro lower_ascii) blast
  with assms(2) obtain w where w: "w \<in> set ws" and "sublist w (map tolower (strip m))"
    by (auto simp: any_in_def list_ex_iff)
  then obtain ps ss where "map tolower (strip m) = ps @ w @ ss"
    by (auto simp: sublist_def)
  then obtain us u vs where "strip m = us @ u @ vs" and l: "map tolower u = w"
    by (auto simp: map_eq_append_conv append_eq_map_conv)
  then have u: "sublist u (strip m)"
    by (auto simp: sublist_def)
  from u strip_sublist have "sublist u m"
    by (rule sublist_order.order.trans)
  moreover have "same_caseless u w"
    using same_caseless_tolower [of u] by (simp add: l)
  ultimately show ?thesis
    using w by (auto simp: mentions_def)
qed

section \<open>Two examples beyond ASCII\<close>

text \<open>
  The Kelvin sign U+212A is lower-cased to \<open>k\<close>: with it, \<open>monK\<close> is the archetype \<open>monk\<close> and
  \<open>worK\<close> is a keyword of the career bucket.
\<close>

lemma kelvin_archetype:
  "generate_guru_reply sample_table (ustr ''mon'' @ [0x212A]) [] =
    ustr ''Monastic Wisdom: '' @ core_silence
      @ ustr '' Choose quiet courage. Consistency is a humble miracle.''"
proof -
  have "lower sample_table (ustr ''mon'' @ [0x212A]) = ustr ''monk''"
    by (simp add: lower_def tolower_def sample_table_def ustr_def)
  moreover have "dict_get preface (ustr ''monk'') (ustr ''Guidance:'') = ustr ''Monastic Wisdom:''"
    by (simp add: dict_get_def preface_def)
  moreover have "dict_get tailoring (ustr ''monk'') [] =
      ustr '' Choose quiet courage. Consistency is a humble miracle.''"
    by (simp add: dict_get_def tailoring_def)
  moreover have "ustr ''Monastic Wisdom:'' @ ustr '' '' = ustr ''Monastic Wisdom: ''"
    by (simp add: ustr_def)
  moreover have "strip [] = []"
    by (simp add: strip_def)
  ultimately show ?thesis
    by (simp add: reply_composed core_reply_def)
qed

lemma kelvin_keyword:
  "core_reply sample_table (strip (ustr ''too much wor'' @ [0x212A])) = core_work"
proof -
  have s: "strip (ustr ''too much wor'' @ [0x212A]) = ustr ''too much wor'' @ [0x212A]"
    by (simp add: strip_def isspace_def ustr_def)
  have l: "lower sample_table (ustr ''too much wor'' @ [0x212A]) = ustr ''too much work''"
    by (simp add: lower_def tolower_def sample_table_def ustr_def)
  have n: "ustr ''too much wor'' @ [0x212A] \<noteq> []"
    by (simp add: ustr_def)
  have "\<not> any_in sample_table stress_words (ustr ''too much wor'' @ [0x212A])"
    by (simp add: any_in_def l stress_words_def) (simp add: ustr_def sublist_code)
  moreover have "\<not> any_in sample_table purpose_words (ustr ''too much wor'' @ [0x212A])"
    by (simp add: any_in_def l purpose_words_def) (simp add: ustr_def sublist_code)
  moreover have "\<not> any_in sample_table love_words (ustr ''too much wor'' @ [0x212A])"
    by (simp add: any_in_def l love_words_def) (simp add: ustr_def sublist_code)
  moreover have "any_in sample_table work_words (ustr ''too much wor'' @ [0x212A])"
    by (simp add: any_in_def l work_words_def) (simp add: ustr_def sublist_code)
  ultimately show ?thesis
    using n by (simp add: s core_reply_def)
qed

section \<open>Claims about the synthesizer\<close>

text \<open>
  C3. A message that contains a stress keyword as a case-insensitive substring is not
  empty after trimming and gets the grounding-breath core reply, whatever keywords of
  the other buckets it also contains. The test of the code for a bucket is that one of
  its keywords occurs in the trimmed message lower-cased by Python; for each of the four
  buckets, a case-insensitive occurrence of one of its keywords in the message as sent
  passes that test, and for a message of ASCII code points the test is passed by
  nothing else. The core reply is that of the first bucket whose test the message
  passes, in the order stress, purpose, relationship, career, and the default reply
  when it passes none.
\<close>

theorem stress_bucket_first:
  "(mentions stress_words m \<longrightarrow>
      strip m \<noteq> [] \<and>
      generate_guru_reply U a m =
        dict_get preface (lower U a) (ustr ''Guidance:'') @ ustr '' '' @ core_stress
          @ dict_get tailoring (lower U a) [])
   \<and> (mentions stress_words m \<longrightarrow> any_in U stress_words (strip m))
   \<and> (mentions purpose_words m \<longrightarrow> any_in U purpose_words (strip m))
   \<and> (mentions love_words m \<longrightarrow> any_in U love_words (strip m))
   \<and> (mentions work_words m \<longrightarrow> any_in U work_words (strip m))
   \<and> ((\<forall>c \<in> set m. c < 128) \<longrightarrow>
        (any_in U stress_words (strip m) \<longleftrightarrow> mentions stress_words m)
        \<and> (any_in U purpose_words (strip m) \<longleftrightarrow> mentions purpose_words m)
        \<and> (any_in U love_words (strip m) \<longleftrightarrow> mentions love_words m)
        \<and> (any_in U work_words (strip m) \<longleftrightarrow> mentions work_words m))
   \<and> generate_guru_reply U a m =
        dict_get preface (lower U a) (ustr ''Guidance:'') @ ustr '' ''
          @ (if strip m = [] then core_silence
             else if any_in U stress_words (strip m) then core_stress
             else if any_in U purpose_words (strip m) then core_purpose
             else if any_in U love_words (strip m) then core_love
             else if any_in U work_words (strip m) then core_work
             else core_default)
          @ dict_get tailoring (lower U a) []"
proof -
  have s: "mentions stress_words m \<Longrightarrow> any_in U stress_words (strip m)"
    and p: "mentions purpose_words m \<Longrightarrow> any_in U purpose_words (strip m)"
    and l: "mentions love_words m \<Longrightarrow> any_in U love_words (strip m)"
    and w: "mentions work_words m \<Longrightarrow> any_in U work_words (strip m)"
    using mentions_any_in [OF stress_keywords] mentions_any_in [OF purpose_keywords]
      mentions_any_in [OF love_keywords] mentions_any_in [OF work_keywords]
    by blast+
  have n: "mentions stress_words m \<Longrightarrow> strip m \<noteq> []"
    using mentions_nonempty [OF stress_keywords] by blast
  have c: "\<forall>c \<in> set m. c < 128 \<Longrightarrow> any_in U ws (strip m) \<Longrightarrow> mentions ws m" for ws
    by (rule any_in_mentions)
  have r: "generate_guru_reply U a m =
        dict_get preface (lower U a) (ustr ''Guidance:'') @ ustr '' ''
          @ (if strip m = [] then core_silence
             else if any_in U stress_words (strip m) then core_stress
             else if any_in U purpose_words (strip m) then core_purpose
             else if any_in U love_words (strip m) then core_love
             else if any_in U work_words (strip m) then core_work
             else core_default)
          @ dict_get tailoring (lower U a) []"
    by (simp add: reply_composed core_reply_def)
  have "mentions stress_words m \<longrightarrow>
      strip m \<noteq> [] \<and>
      generate_guru_reply U a m =
        dict_get preface (lower U a) (ustr ''Guidance:'') @ ustr '' '' @ core_stress
          @ dict_get tailoring (lower U a) []"
    using s n by (simp add: r)
  moreover have "(\<forall>c \<in> set m. c < 128) \<longrightarrow>
        (any_in U stress_words (strip m) \<longleftrightarrow> mentions stress_words m)
        \<and> (any_in U purpose_words (strip m) \<longleftrightarrow> mentions purpose_words m)
        \<and> (any_in U love_words (strip m) \<longleftrightarrow> mentions love_words m)
        \<and> (any_in U work_words (strip m) \<longleftrightarrow> mentions work_words m)"
    using s p l w c by blast
  ultimately show ?thesis
    using s p l w r by blast
qed

theorem stress_bucket_first_witness:
  "mentions stress_words (ustr ''I feel ANXIOUS about my job'')
   \<and> mentions work_words (ustr ''I feel ANXIOUS about my job'')
   \<and> generate_guru_reply sample_table (ustr ''monk'') (ustr ''I feel ANXIOUS about my job'') =
       ustr ''Monastic Wisdom: '' @ core_stress
         @ ustr '' Choose quiet courage. Consistency is a humble miracle.''"
proof -
  have u: "sublist (ustr ''ANXIOUS'') (ustr ''I feel ANXIOUS about my job'')"
    by (simp add: ustr_def sublist_code)
  have "same_caseless (ustr ''ANXIOUS'') (ustr ''anxious'')"
    by (simp add: same_caseless_def ustr_def)
  with u have s: "mentions stress_words (ustr ''I feel ANXIOUS about my job'')"
    unfolding mentions_def stress_words_def by auto
  have "sublist (ustr ''job'') (ustr ''I feel ANXIOUS about my job'')"
    by (simp add: ustr_def sublist_code)
  moreover have "same_caseless (ustr ''job'') (ustr ''job'')"
    by (simp add: same_caseless_def ustr_def)
  ultimately have j: "mentions work_words (ustr ''I feel ANXIOUS about my job'')"
    unfolding mentions_def work_words_def by auto
  have l: "lower sample_table (ustr ''monk'') = ustr ''monk''"
    by (simp add: lower_def tolower_def ustr_def)
  have "dict_get preface (ustr ''monk'') (ustr ''Guidance:'') = ustr ''Monastic Wisdom:''"
    by (simp add: dict_get_def preface_def)
  moreover have "dict_get tailoring (ustr ''monk'') [] =
      ustr '' Choose quiet courage. Consistency is a humble miracle.''"
    by (simp add: dict_get_def tailoring_def)
  moreover have "ustr ''Monastic Wisdom:'' @ ustr '' '' = ustr ''Monastic Wisdom: ''"
    by (simp add: ustr_def)
  ultimately show ?thesis
    using s j l
      stress_bucket_first [where m = "ustr ''I feel ANXIOUS about my job''" and U = sample_table
        and a = "ustr ''monk''", THEN conjunct1]
    by simp
qed

text \<open>
  C4. For every archetype and every message that is empty after trimming, the reply is
  the opening label of the archetype, one space, the silence core reply and the
  tailoring suffix of the archetype, with nothing between the last two. Such a message
  mentions no keyword of any bucket.
\<close>

theorem silence_reply:
  "strip m = [] \<Longrightarrow>
    generate_guru_reply U a m =
      dict_get preface (lower U a) (ustr ''Guidance:'') @ ustr '' '' @ core_silence
        @ dict_get tailoring (lower U a) []
    \<and> \<not> mentions stress_words m \<and> \<not> mentions purpose_words m
    \<and> \<not> mentions love_words m \<and> \<not> mentions work_words m"
  using mentions_nonempty [OF stress_keywords, of m] mentions_nonempty [OF purpose_keywords, of m]
    mentions_nonempty [OF love_keywords, of m] mentions_nonempty [OF work_keywords, of m]
  by (auto simp: reply_composed core_reply_def)

theorem silence_reply_witness:
  "strip [0x20, 0xA0, 0x3000, 0x09, 0x0A] = []
   \<and> generate_guru_reply sample_table (ustr ''sufi'') [0x20, 0xA0, 0x3000, 0x09, 0x0A] =
       ustr ''Sufi Whisper: '' @ core_silence
         @ ustr '' Let love polish the heart; dance gently with what is.''"
proof -
  have e: "strip [0x20, 0xA0, 0x3000, 0x09, 0x0A] = []"
    by (simp add: strip_def isspace_def)
  have l: "lower sample_table (ustr ''sufi'') = ustr ''sufi''"
    by (simp add: lower_def tolower_def ustr_def)
  have "dict_get preface (ustr ''sufi'') (ustr ''Guidance:'') = ustr ''Sufi Whisper:''"
    by (simp add: dict_get_def preface_def)
  moreover have "dict_get tailoring (ustr ''sufi'') [] =
      ustr '' Let love polish the heart; dance gently with what is.''"
    by (simp add: dict_get_def tailoring_def)
  moreover have "ustr ''Sufi Whisper:'' @ ustr '' '' = ustr ''Sufi Whisper: ''"
    by (simp add: ustr_def)
  ultimately show ?thesis
    using e l silence_reply [OF e, of sample_table "ustr ''sufi''"] by simp
qed

text \<open>
  C5, as stated: every archetype string that is not one of the five known archetypes
  gets the generic opening and an empty suffix. It fails at \<open>ZEN\<close>, which is not one of
  the five strings and gets the opening and the suffix of \<open>zen\<close>, since the archetype
  is lower-cased before the two lookups. The strings of the example are ASCII, so that
  no lower-case table is consulted and the result is the same for every table.
\<close>

theorem unknown_archetype_counterexample:
  "ustr ''ZEN'' \<notin> set known_archetypes
   \<and> generate_guru_reply sample_table (ustr ''ZEN'') (ustr ''hello'') =
       ustr ''Zen Reflection:'' @ ustr '' '' @ core_reply sample_table (strip (ustr ''hello''))
         @ ustr '' Embrace simplicity'' @ [0x2014]
         @ ustr ''wash the bowl, one mindful action at a time.''
   \<and> generate_guru_reply sample_table (ustr ''ZEN'') (ustr ''hello'')
       \<noteq> ustr ''Guidance:'' @ ustr '' '' @ core_reply sample_table (strip (ustr ''hello'')) @ []"
proof -
  have l: "lower sample_table (ustr ''ZEN'') = ustr ''zen''"
    by (simp add: lower_def tolower_def ustr_def)
  have p: "dict_get preface (ustr ''zen'') (ustr ''Guidance:'') = ustr ''Zen Reflection:''"
    by (simp add: dict_get_def preface_def)
  have t: "dict_get tailoring (ustr ''zen'') [] =
      ustr '' Embrace simplicity'' @ [0x2014]
        @ ustr ''wash the bowl, one mindful action at a time.''"
    by (simp add: dict_get_def tailoring_def)
  have d: "ustr ''Zen Reflection:'' @ x \<noteq> ustr ''Guidance:'' @ y" for x y :: str
    by (simp add: ustr_def)
  from l p t d show ?thesis
    by (simp add: reply_composed known_archetypes_def)
qed

text \<open>
  C5, amended: every archetype string whose lower-cased form, as Python's \<^verbatim>\<open>lower\<close> gives
  it, is not one of the five known archetypes gets the generic opening \<open>Guidance:\<close> and an
  empty suffix, with the core reply selected from the message as for any archetype.
\<close>

theorem unknown_archetype_generic:
  "lower U a \<notin> set known_archetypes \<Longrightarrow>
    generate_guru_reply U a m = ustr ''Guidance:'' @ ustr '' '' @ core_reply U (strip m) @ []"
proof -
  assume "lower U a \<notin> set known_archetypes"
  then have "map_of preface (lower U a) = None" and "map_of tailoring (lower U a) = None"
    by (simp_all add: known_archetypes_def preface_def tailoring_def)
  then show ?thesis
    by (simp add: reply_composed dict_get_def)
qed

theorem unknown_archetype_generic_witness:
  "lower sample_table (ustr ''Wizard'') \<notin> set known_archetypes
   \<and> generate_guru_reply sample_table (ustr ''Wizard'') (ustr ''I love my job'')
       = ustr ''Guidance: '' @ core_love"
proof -
  have "lower sample_table (ustr ''Wizard'') = ustr ''wizard''"
    by (simp add: lower_def tolower_def ustr_def)
  then have l: "lower sample_table (ustr ''Wizard'') \<notin> set known_archetypes"
    by (simp add: known_archetypes_def)
  have s: "strip (ustr ''I love my job'') = ustr ''I love my job''"
    by (simp add: strip_def isspace_def ustr_def)
  have w: "lower sample_table (ustr ''I love my job'') = ustr ''i love my job''"
    by (simp add: lower_def tolower_def ustr_def)
  have "core_reply sample_table (ustr ''I love my job'') = core_love"
    by (simp add: core_reply_def any_in_def w stress_words_def purpose_words_def love_words_def)
       (simp add: ustr_def sublist_code)
  moreover have "ustr ''Guidance:'' @ ustr '' '' = ustr ''Guidance: ''"
    by (simp add: ustr_def)
  ultimately show ?thesis
    using l s unknown_archetype_generic [OF l, of "ustr ''I love my job''"] by simp
qed

text \<open>
  C10. An archetype string that equals one of the five known archetypes up to letter
  case gets the opening label and the tailoring suffix that the two tables hold for that
  archetype, neither of which is the generic one, and the same reply as the archetype
  written in lower case.
\<close>

theorem archetype_caseless:
  assumes "k \<in> set known_archetypes" and "same_caseless a k"
  shows "\<exists>label suffix.
          map_of preface k = Some label \<and> map_of tailoring k = Some suffix
          \<and> label \<noteq> ustr ''Guidance:'' \<and> suffix \<noteq> []
          \<and> generate_guru_reply U a m = label @ ustr '' '' @ core_reply U (strip m) @ suffix
          \<and> generate_guru_reply U a m = generate_guru_reply U k m"
proof -
  note letters = known_letters [OF assms(1)]
  have "same_caseless k k"
    by (simp add: same_caseless_def list_all2_same)
  then have kk: "lower U k = k"
    using letters by (rule same_caseless_lower)
  have la: "lower U a = k"
    using assms(2) letters by (rule same_caseless_lower)
  from assms(1) obtain label suffix where
    t: "map_of preface k = Some label" "map_of tailoring k = Some suffix"
      "label \<noteq> ustr ''Guidance:''" "suffix \<noteq> []"
    by (auto simp: known_archetypes_def preface_def tailoring_def)
  with la kk show ?thesis
    by (simp add: reply_composed dict_get_def)
qed

theorem archetype_caseless_witness:
  "ustr ''zen'' \<in> set known_archetypes \<and> same_caseless (ustr ''ZeN'') (ustr ''zen'')
   \<and> generate_guru_reply sample_table (ustr ''ZeN'') (ustr ''hello'')
       = generate_guru_reply sample_table (ustr ''zen'') (ustr ''hello'')
   \<and> map_of preface (ustr ''zen'') = Some (ustr ''Zen Reflection:'')"
proof -
  have k: "ustr ''zen'' \<in> set known_archetypes"
    by (simp add: known_archetypes_def)
  have c: "same_caseless (ustr ''ZeN'') (ustr ''zen'')"
    by (simp add: same_caseless_def ustr_def)
  have "map_of preface (ustr ''zen'') = Some (ustr ''Zen Reflection:'')"
    by (simp add: preface_def)
  with k c archetype_caseless [OF k c, of sample_table "ustr ''hello''"] show ?thesis
    by blast
qed

section \<open>Persona resolution\<close>

lemma find_fallback_known:
  "gid \<in> set known_archetypes \<Longrightarrow>
    \<exists>n. find (\<lambda>g. map_of g (ustr ''archetype'') = Some (VStr gid)) fallback_gurus
          = Some [(ustr ''name'', VStr n), (ustr ''archetype'', VStr gid)]"
  by (auto simp: known_archetypes_def fallback_gurus_def)

lemma find_fallback_unknown:
  "gid \<notin> set known_archetypes \<Longrightarrow>
    find (\<lambda>g. map_of g (ustr ''archetype'') = Some (VStr gid)) fallback_gurus = None"
  by (auto simp: known_archetypes_def fallback_gurus_def)

lemma resolve_guru_stored:
  "gd (ustr ''guru'') (Some (guru_query gid)) db = (Inr (g # gs), db1) \<Longrightarrow>
    resolve_guru gd gid db = (Some g, db1)"
  by (simp add: resolve_guru_def)

lemma resolve_guru_fallback:
  "gd (ustr ''guru'') (Some (guru_query gid)) db = (r, db1) \<Longrightarrow> r = Inr [] \<or> (\<exists>e. r = Inl e) \<Longrightarrow>
    resolve_guru gd gid db
      = (find (\<lambda>g. map_of g (ustr ''archetype'') = Some (VStr gid)) fallback_gurus, db1)"
  by (auto simp: resolve_guru_def)

lemma ask_guru_unresolved:
  "resolve_guru gd (guru_id payload) db = (None, db1) \<Longrightarrow>
    ask_guru U gd cd payload db = (Inl (HTTPException 404 (ustr ''Guru not found'')), db1)"
  by (simp add: ask_guru_def)

section \<open>Persistence\<close>

lemma persist_returns_id: "\<exists>cid. fst (persist cd payload r db) = Some cid"
  by (auto simp: persist_def persist_body_def falsy_def Let_def
        split: prod.splits sum.splits if_splits option.splits)

lemma persist_creation_fails:
  "falsy (AskRequest.conversation_id payload) \<Longrightarrow>
    fst (cd (ustr ''conversation'') (conversation_doc payload) db) = Inl e \<Longrightarrow>
    fst (persist cd payload r db) = Some (ustr ''temp-session'')"
  by (auto simp: persist_def persist_body_def Let_def split: prod.splits sum.splits)

lemma persist_handler:
  "persist_body cd payload r db = (Inl e, c, db') \<Longrightarrow>
    persist cd payload r db = (if falsy c then Some (ustr ''temp-session'') else c, db')"
  by (simp add: persist_def)

lemma persist_supplied:
  "AskRequest.conversation_id payload = Some c \<Longrightarrow> c \<noteq> [] \<Longrightarrow>
    fst (persist cd payload r db) = Some c"
  by (auto simp: persist_def persist_body_def falsy_def Let_def
        split: prod.splits sum.splits if_splits)

lemma persist_messages_only:
  assumes "AskRequest.conversation_id payload = Some c" and "c \<noteq> []"
    and "\<And>d t. cd' (ustr ''message'') d t = cd (ustr ''message'') d t"
  shows "persist cd' payload r db = persist cd payload r db"
  using assms
  by (auto simp: persist_def persist_body_def falsy_def Let_def split: prod.splits sum.splits)

lemma ask_guru_reply:
  assumes "resolve_guru gd (guru_id payload) db = (Some guru, db1)" and "guru \<noteq> []"
    and "dict_get guru (ustr ''archetype'') (VStr (ustr ''zen'')) = VStr archetype"
  shows "ask_guru U gd cd payload db =
    (Inr \<lparr>conversation_id =
            py_str (opt_val (fst (persist cd payload
              (generate_guru_reply U archetype (user_message payload)) db1))),
          reply = generate_guru_reply U archetype (user_message payload)\<rparr>,
     snd (persist cd payload (generate_guru_reply U archetype (user_message payload)) db1))"
  using assms by (simp add: ask_guru_def Let_def split: prod.splits)

lemma persist_supplied_pair:
  "persist cd payload r db = (x, db') \<Longrightarrow> AskRequest.conversation_id payload = Some c \<Longrightarrow>
    c \<noteq> [] \<Longrightarrow> x = Some c"
  using persist_supplied [of payload c cd r db] by simp

lemma ask_guru_supplied_id:
  assumes "ask_guru U gd cd payload db = (Inr resp, db')"
    and "AskRequest.conversation_id payload = Some c" and "c \<noteq> []"
  shows "AskResponse.conversation_id resp = c"
  using assms
  by (auto simp: ask_guru_def Let_def dest: persist_supplied_pair
        split: prod.splits option.splits if_splits pyval.splits)

lemma ask_guru_messages_only:
  assumes "AskRequest.conversation_id payload = Some c" and "c \<noteq> []"
    and "\<And>d t. cd' (ustr ''message'') d t = cd (ustr ''message'') d t"
  shows "ask_guru U gd cd' payload db = ask_guru U gd cd payload db"
  using persist_messages_only [of payload c cd' cd] assms
  by (auto simp: ask_guru_def Let_def split: prod.splits option.splits pyval.splits)

section \<open>Listing\<close>

lemma normalize_defaults: "map normalize defaults = defaults"
  by (simp add: defaults_def normalize_def)

lemma defaults_archetypes:
  "map (\<lambda>d. map_of d (ustr ''archetype'')) defaults = map (\<lambda>a. Some (VStr a)) known_archetypes"
  by (simp add: defaults_def known_archetypes_def)

lemma list_gurus_unavailable:
  "gd (ustr ''guru'') None db = (Inl e, db1) \<Longrightarrow> list_gurus gd cd db = (defaults, db1)"
  by (simp add: list_gurus_def normalize_defaults)

lemma list_gurus_requery_fails:
  "gd (ustr ''guru'') None db = (Inr [], db1) \<Longrightarrow>
    gd (ustr ''guru'') None (seed cd defaults db1) = (Inl e, db2) \<Longrightarrow>
    list_gurus gd cd db = (defaults, db2)"
  by (simp add: list_gurus_def normalize_defaults)

lemma list_gurus_stored:
  "gd (ustr ''guru'') None db = (Inr (d # ds), db1) \<Longrightarrow>
    list_gurus gd cd db = (map normalize (d # ds), db1)"
  by (simp add: list_gurus_def)

lemma list_gurus_seeded:
  "gd (ustr ''guru'') None db = (Inr [], db1) \<Longrightarrow>
    gd (ustr ''guru'') None (seed cd defaults db1) = (Inr ds, db2) \<Longrightarrow>
    list_gurus gd cd db = (map normalize ds, db2)"
  by (simp add: list_gurus_def)

section \<open>The store\<close>

lemma store_query_ok:
  "\<not> outage s (clock s) \<Longrightarrow>
    store_get_documents c q s = (Inr (select c q s), s\<lparr>clock := Suc (clock s)\<rparr>)"
  by (simp add: store_get_documents_def)

lemma store_query_fails:
  "outage s (clock s) \<Longrightarrow>
    store_get_documents c q s = (Inl StoreError, s\<lparr>clock := Suc (clock s)\<rparr>)"
  by (simp add: store_get_documents_def)

lemma store_query_keeps:
  "documents (snd (store_get_documents c q s)) = documents s"
  "issued (snd (store_get_documents c q s)) = issued s"
  by (simp_all add: store_get_documents_def)

lemma store_insert_fails:
  "outage s (clock s) \<Longrightarrow>
    store_create_document c d s = (Inl StoreError, s\<lparr>clock := Suc (clock s)\<rparr>)"
  by (simp add: store_create_document_def)

lemma store_insert_ok:
  "\<not> outage s (clock s) \<Longrightarrow>
    store_create_document c d s =
      (Inr (fresh s (issued s)),
       s\<lparr>documents := documents s @ [(c, AList.update (ustr ''_id'') (VStr (fresh s (issued s))) d)],
         issued := Suc (issued s), clock := Suc (clock s)\<rparr>)"
  by (simp add: store_create_document_def Let_def)

lemma select_append:
  "select c q (s\<lparr>documents := documents s @ ds\<rparr>) = select c q s @ select c q (s\<lparr>documents := ds\<rparr>)"
  by (simp add: select_def)

lemma select_other_collection:
  "c' \<noteq> c \<Longrightarrow> select c q (snd (store_create_document c' d s)) = select c q s"
  by (simp add: store_create_document_def select_def Let_def)

lemma seed_skips_failure:
  "outage t (clock t) \<Longrightarrow>
    seed store_create_document (g # gs) t = seed store_create_document gs (t\<lparr>clock := Suc (clock t)\<rparr>)"
  by (simp add: store_insert_fails)

lemma seed_store:
  "\<forall>i<length gs. \<not> outage s (clock s + i) \<Longrightarrow>
    seed store_create_document gs s =
      s\<lparr>documents := documents s
           @ map (\<lambda>(n, g). (ustr ''guru'', AList.update (ustr ''_id'') (VStr (fresh s n)) g))
               (enumerate (issued s) gs),
        issued := issued s + length gs,
        clock := clock s + length gs\<rparr>"
proof (induction gs arbitrary: s)
  case Nil
  show ?case by simp
next
  case (Cons g gs)
  let ?s' = "s\<lparr>documents := documents s @ [(ustr ''guru'', AList.update (ustr ''_id'') (VStr (fresh s (issued s))) g)],
               issued := Suc (issued s), clock := Suc (clock s)\<rparr>"
  from Cons.prems have now: "\<not> outage s (clock s)"
    by force
  from Cons.prems have later: "\<forall>i<length gs. \<not> outage ?s' (clock ?s' + i)"
    by force
  have "seed store_create_document (g # gs) s = seed store_create_document gs ?s'"
    by (simp add: store_insert_ok [OF now])
  also have "\<dots> = ?s'\<lparr>documents := documents ?s'
           @ map (\<lambda>(n, g). (ustr ''guru'', AList.update (ustr ''_id'') (VStr (fresh ?s' n)) g))
               (enumerate (issued ?s') gs),
        issued := issued ?s' + length gs,
        clock := clock ?s' + length gs\<rparr>"
    by (rule Cons.IH [OF later])
  finally show ?case by simp
qed

lemma select_after_query:
  "store_get_documents c' q' s = (x, s') \<Longrightarrow> select c q s' = select c q s"
  by (auto simp: store_get_documents_def select_def split: if_splits)

lemma select_after_insert:
  "store_create_document c' d s = (x, s') \<Longrightarrow> c' \<noteq> c \<Longrightarrow> select c q s' = select c q s"
  by (auto simp: store_create_document_def select_def Let_def split: if_splits)

lemma conversations_kept_persist:
  assumes "AskRequest.conversation_id payload = Some c" and "c \<noteq> []"
    and "persist store_create_document payload r s = (x, s')"
  shows "select (ustr ''conversation'') q s' = select (ustr ''conversation'') q s"
  using assms
  by (auto simp: persist_def persist_body_def falsy_def Let_def
        dest!: select_after_insert [where c = "(ustr ''conversation'')" and q = q]
        split: prod.splits sum.splits)

lemma conversations_kept:
  assumes "AskRequest.conversation_id payload = Some c" and "c \<noteq> []"
  shows "select (ustr ''conversation'') q
      (snd (ask_guru U store_get_documents store_create_document payload s))
    = select (ustr ''conversation'') q s"
proof -
  obtain guru s1 where r: "resolve_guru store_get_documents (guru_id payload) s = (guru, s1)"
    by (cases "resolve_guru store_get_documents (guru_id payload) s")
  then have s1: "select (ustr ''conversation'') q s1 = select (ustr ''conversation'') q s"
    by (auto simp: resolve_guru_def Let_def
          dest!: select_after_query [where c = "(ustr ''conversation'')" and q = q]
          split: prod.splits sum.splits)
  show ?thesis
    using r s1 assms
    by (auto simp: ask_guru_def Let_def dest!: conversations_kept_persist [where q = q]
          split: prod.splits option.splits pyval.splits)
qed

lemma stored_defaults:
  "map (\<lambda>(n, g). (ustr ''guru'', AList.update (ustr ''_id'') (VStr (f n)) g)) (enumerate k defaults)
    = map (\<lambda>(n, g). (ustr ''guru'', g @ [(ustr ''_id'', VStr (f n))])) (enumerate k defaults)"
  by (simp add: defaults_def)

lemma normalize_stored:
  "map normalize (map (\<lambda>(n, g). g @ [(ustr ''_id'', VStr (f n))]) (enumerate k defaults))
    = map (\<lambda>(n, g). g @ [(ustr ''id'', VStr (f n))]) (enumerate k defaults)"
  by (simp add: defaults_def normalize_def)

lemma archetypes_listed:
  "map (\<lambda>d. map_of d (ustr ''archetype''))
      (map (\<lambda>(n, g). g @ [(ustr ''id'', VStr (f n))]) (enumerate k defaults))
    = map (\<lambda>a. Some (VStr a)) known_archetypes"
  by (simp add: defaults_def known_archetypes_def)

lemma select_gurus_stored:
  "select (ustr ''guru'') None (s\<lparr>documents := map (\<lambda>(n, g). (ustr ''guru'', h n g)) ngs\<rparr>)
    = map (\<lambda>(n, g). h n g) ngs"
  by (induction ngs) (auto simp: select_def)

lemma length_defaults: "length defaults = 5"
  by (simp add: defaults_def)

text \<open>
  Listing on a store whose persona collection is empty, when the seven operations of the
  call meet no outage: the five defaults are stored, each with the next identifier, and
  the store is left at \<open>seeded s\<close>.
\<close>

lemma list_gurus_seeds:
  assumes e: "select (ustr ''guru'') None s = []" and o: "\<And>i. i < 7 \<Longrightarrow> \<not> outage s (clock s + i)"
  shows "list_gurus store_get_documents store_create_document s =
    (map (\<lambda>(n, g). g @ [(ustr ''id'', VStr (fresh s n))]) (enumerate (issued s) defaults),
     s\<lparr>documents := documents s
          @ map (\<lambda>(n, g). (ustr ''guru'', g @ [(ustr ''_id'', VStr (fresh s n))]))
              (enumerate (issued s) defaults),
       issued := issued s + 5, clock := clock s + 7\<rparr>)"
proof -
  let ?s0 = "s\<lparr>clock := Suc (clock s)\<rparr>"
  let ?new = "map (\<lambda>(n, g). (ustr ''guru'', g @ [(ustr ''_id'', VStr (fresh s n))]))
                (enumerate (issued s) defaults)"
  let ?s5 = "s\<lparr>documents := documents s @ ?new, issued := issued s + 5, clock := clock s + 6\<rparr>"
  have q0: "store_get_documents (ustr ''guru'') None s = (Inr [], ?s0)"
    using o [of 0] e by (simp add: store_query_ok)
  have "\<forall>i<length defaults. \<not> outage ?s0 (clock ?s0 + i)"
  proof (intro allI impI)
    fix i
    assume "i < length defaults"
    then show "\<not> outage ?s0 (clock ?s0 + i)"
      using o [of "Suc i"] by (simp add: length_defaults)
  qed
  then have seeded: "seed store_create_document defaults ?s0 = ?s5"
    by (simp add: seed_store stored_defaults length_defaults)
  have "select (ustr ''guru'') None ?s5 = select (ustr ''guru'') None s @ select (ustr ''guru'') None (s\<lparr>documents := ?new\<rparr>)"
    by (simp add: select_def)
  also have "\<dots> = map (\<lambda>(n, g). g @ [(ustr ''_id'', VStr (fresh s n))]) (enumerate (issued s) defaults)"
    using e by (simp add: select_gurus_stored)
  finally have sel: "select (ustr ''guru'') None ?s5 =
      map (\<lambda>(n, g). g @ [(ustr ''_id'', VStr (fresh s n))]) (enumerate (issued s) defaults)" .
  have q1: "store_get_documents (ustr ''guru'') None ?s5 =
      (Inr (map (\<lambda>(n, g). g @ [(ustr ''_id'', VStr (fresh s n))]) (enumerate (issued s) defaults)),
       ?s5\<lparr>clock := Suc (clock ?s5)\<rparr>)"
    using o [of 6] store_query_ok [of ?s5 "(ustr ''guru'')" None] by (simp add: sel)
  show ?thesis
    using list_gurus_seeded [where gd = store_get_documents and cd = store_create_document
        and db = s and ?db1.0 = ?s0, OF q0] q1
    by (simp del: map_map add: seeded normalize_stored)
qed

text \<open>Listing on a store that holds the seeded personas does not write.\<close>

lemma list_gurus_seeded_again:
  assumes sel: "select (ustr ''guru'') None t =
      map (\<lambda>(n, g). g @ [(ustr ''_id'', VStr (f n))]) (enumerate k defaults)"
    and o: "\<not> outage t (clock t)"
  shows "list_gurus store_get_documents store_create_document t =
    (map (\<lambda>(n, g). g @ [(ustr ''id'', VStr (f n))]) (enumerate k defaults),
     t\<lparr>clock := Suc (clock t)\<rparr>)"
proof -
  have "select (ustr ''guru'') None t \<noteq> []"
    by (simp add: sel defaults_def)
  then obtain d ds where dd: "select (ustr ''guru'') None t = d # ds"
    by (cases "select (ustr ''guru'') None t") auto
  have "store_get_documents (ustr ''guru'') None t = (Inr (d # ds), t\<lparr>clock := Suc (clock t)\<rparr>)"
    using o by (simp add: store_query_ok dd)
  from list_gurus_stored [where gd = store_get_documents and db = t, OF this] show ?thesis
    by (simp del: map_map add: dd [symmetric] sel normalize_stored)
qed

section \<open>Claims about the store adapter\<close>

text \<open>
  C1. When the persona resolves to a record whose archetype is a string (or is missing,
  and read as \<open>zen\<close>), the request succeeds whatever \<^verbatim>\<open>create_document\<close> does: the
  response carries the synthesized reply and a conversation identifier that is a
  string, never \<^verbatim>\<open>None\<close>. When no identifier was supplied and the creation of the
  conversation raises, the identifier is \<open>temp-session\<close>; in general, when a persistence
  step raises, it is \<open>temp-session\<close> if the identifier held at that point is missing or
  empty, and the identifier held otherwise.
\<close>

theorem persistence_failure_tolerated:
  assumes "resolve_guru gd (guru_id payload) db = (Some guru, db1)" and "guru \<noteq> []"
    and "dict_get guru (ustr ''archetype'') (VStr (ustr ''zen'')) = VStr archetype"
  shows "\<exists>cid db2.
      ask_guru U gd cd payload db =
        (Inr \<lparr>conversation_id = cid,
              reply = generate_guru_reply U archetype (user_message payload)\<rparr>, db2)
      \<and> persist cd payload (generate_guru_reply U archetype (user_message payload)) db1
          = (Some cid, db2)
      \<and> (falsy (AskRequest.conversation_id payload)
           \<and> (\<exists>e. fst (cd (ustr ''conversation'') (conversation_doc payload) db1) = Inl e)
          \<longrightarrow> cid = (ustr ''temp-session''))
      \<and> (\<forall>e c db'.
            persist_body cd payload (generate_guru_reply U archetype (user_message payload)) db1
              = (Inl e, c, db')
            \<longrightarrow> (if falsy c then cid = (ustr ''temp-session'') else c = Some cid))"
proof -
  let ?r = "generate_guru_reply U archetype (user_message payload)"
  obtain cid where cid: "fst (persist cd payload ?r db1) = Some cid"
    using persist_returns_id [of cd payload ?r db1] by blast
  define db2 where "db2 = snd (persist cd payload ?r db1)"
  have p: "persist cd payload ?r db1 = (Some cid, db2)"
    using cid by (simp add: db2_def prod_eq_iff)
  have "ask_guru U gd cd payload db = (Inr \<lparr>conversation_id = cid, reply = ?r\<rparr>, db2)"
    using ask_guru_reply [OF assms, where cd = cd and U = U] by (simp add: p)
  moreover have "falsy (AskRequest.conversation_id payload)
           \<and> (\<exists>e. fst (cd (ustr ''conversation'') (conversation_doc payload) db1) = Inl e)
          \<longrightarrow> cid = (ustr ''temp-session'')"
    using persist_creation_fails [of payload cd db1 _ ?r] cid by auto
  moreover have "\<forall>e c db'. persist_body cd payload ?r db1 = (Inl e, c, db')
            \<longrightarrow> (if falsy c then cid = (ustr ''temp-session'') else c = Some cid)"
    using p by (auto simp: persist_def)
  ultimately show ?thesis
    using p by blast
qed

theorem persistence_failure_tolerated_witness:
  "fst (ask_guru sample_table store_get_documents store_create_document example_request
         (example_store\<lparr>outage := \<lambda>n. True\<rparr>))
    = Inr \<lparr>conversation_id = (ustr ''temp-session''),
           reply = generate_guru_reply sample_table (ustr ''zen'') (ustr ''I am stressed about work'')\<rparr>"
proof -
  let ?s = "example_store\<lparr>outage := \<lambda>n. True\<rparr>"
  let ?g = "[(ustr ''name'', VStr (ustr ''Zen Teacher'')), (ustr ''archetype'', VStr (ustr ''zen''))]"
  have r: "resolve_guru store_get_documents (guru_id example_request) ?s
      = (Some ?g, ?s\<lparr>clock := Suc (clock ?s)\<rparr>)"
    by (simp add: resolve_guru_def store_get_documents_def example_store_def
          example_request_def fallback_gurus_def)
  have n: "?g \<noteq> []" by simp
  have a: "dict_get ?g (ustr ''archetype'') (VStr (ustr ''zen'')) = VStr (ustr ''zen'')"
    by (simp add: dict_get_def)
  have f: "falsy (AskRequest.conversation_id example_request)"
    by (simp add: falsy_def example_request_def)
  have c: "fst (store_create_document (ustr ''conversation'') (conversation_doc example_request)
                 (?s\<lparr>clock := Suc (clock ?s)\<rparr>)) = Inl StoreError"
    by (simp add: store_create_document_def example_store_def)
  from persistence_failure_tolerated [OF r n a, where cd = store_create_document
      and U = sample_table] f c
  show ?thesis
    by (auto simp: example_request_def)
qed

text \<open>
  C6. When the store returns no persona for \<open>guru_id\<close> (or raises) and \<open>guru_id\<close> is not one
  of the five default archetypes, the request fails with the not-found error and the
  store is left as the query left it: \<^verbatim>\<open>create_document\<close> is not applied, whatever it
  is.
\<close>

theorem unknown_persona_no_writes:
  assumes "gd (ustr ''guru'') (Some (guru_query (guru_id payload))) db = (r, db1)"
    and "r = Inr [] \<or> (\<exists>e. r = Inl e)"
    and "guru_id payload \<notin> set known_archetypes"
  shows "ask_guru U gd cd payload db = (Inl (HTTPException 404 (ustr ''Guru not found'')), db1)"
proof -
  have "resolve_guru gd (guru_id payload) db = (None, db1)"
    using resolve_guru_fallback [where gd = gd and db = db, OF assms(1,2)]
      find_fallback_unknown [OF assms(3)] by simp
  then show ?thesis
    by (rule ask_guru_unresolved)
qed

theorem unknown_persona_no_writes_witness:
  "fst (ask_guru sample_table store_get_documents store_create_document
          (example_request\<lparr>guru_id := (ustr ''unknown-persona-xyz'')\<rparr>) oracle_store)
     = Inl (HTTPException 404 (ustr ''Guru not found''))
   \<and> documents (snd (ask_guru sample_table store_get_documents store_create_document
          (example_request\<lparr>guru_id := (ustr ''unknown-persona-xyz'')\<rparr>) oracle_store))
     = documents oracle_store
   \<and> issued (snd (ask_guru sample_table store_get_documents store_create_document
          (example_request\<lparr>guru_id := (ustr ''unknown-persona-xyz'')\<rparr>) oracle_store))
     = issued oracle_store"
proof -
  let ?p = "example_request\<lparr>guru_id := (ustr ''unknown-persona-xyz'')\<rparr>"
  have q: "store_get_documents (ustr ''guru'') (Some (guru_query (guru_id ?p))) oracle_store
      = (Inr [], oracle_store\<lparr>clock := 1\<rparr>)"
    by (simp add: store_get_documents_def select_def guru_query_def oracle_store_def
          example_store_def)
  have e: "Inr [] = (Inr [] :: error + doc list) \<or> (\<exists>e. (Inr [] :: error + doc list) = Inl e)"
    by simp
  have k: "guru_id ?p \<notin> set known_archetypes"
    by (simp add: known_archetypes_def)
  from unknown_persona_no_writes [where gd = store_get_documents and db = oracle_store
      and cd = store_create_document, OF q e k]
  show ?thesis
    by simp
qed

text \<open>
  C8. When the first query of the listing raises, the listing does not fail: it returns
  the five built-in defaults as they are, and the store is left as the failed query left
  it, so that nothing is written.
\<close>

theorem listing_store_unavailable:
  assumes "gd (ustr ''guru'') None db = (Inl e, db1)"
  shows "list_gurus gd cd db = (defaults, db1)
    \<and> map (\<lambda>d. map_of d (ustr ''archetype'')) defaults = map (\<lambda>a. Some (VStr a)) known_archetypes"
  using list_gurus_unavailable [where gd = gd and db = db, OF assms] defaults_archetypes
  by simp

theorem listing_store_unavailable_witness:
  "list_gurus store_get_documents store_create_document (example_store\<lparr>outage := \<lambda>n. True\<rparr>)
     = (defaults, example_store\<lparr>outage := \<lambda>n. True, clock := 1\<rparr>)
   \<and> documents (example_store\<lparr>outage := \<lambda>n. True, clock := 1\<rparr>) = []"
proof -
  have q: "store_get_documents (ustr ''guru'') None (example_store\<lparr>outage := \<lambda>n. True\<rparr>)
      = (Inl StoreError, example_store\<lparr>outage := \<lambda>n. True, clock := 1\<rparr>)"
    by (simp add: store_get_documents_def example_store_def)
  from listing_store_unavailable [where gd = store_get_documents
      and db = "example_store\<lparr>outage := \<lambda>n. True\<rparr>" and cd = store_create_document, OF q]
  show ?thesis
    by (simp add: example_store_def)
qed

text \<open>
  C2. The query sent to the store selects the documents whose archetype or whose
  identifier is \<open>gid\<close>. Whatever the store answers: when it returns documents, the persona
  is the first of them (and a document that matches the query is not an empty
  dictionary, so it is used); when it returns none, or raises, the persona is the
  default whose archetype is \<open>gid\<close>, if \<open>gid\<close> is one of the five; otherwise there is no
  persona and the request fails with the not-found error, with no reply.
\<close>

theorem persona_resolution:
  assumes "gd (ustr ''guru'') (Some (guru_query gid)) db = (r, db1)"
  shows "(\<forall>d. matches (guru_query gid) d \<longleftrightarrow>
            (map_of d (ustr ''archetype'') = Some (VStr gid) \<or> map_of d (ustr ''_id'') = Some (VStr gid)))
    \<and> (\<forall>g gs. r = Inr (g # gs) \<longrightarrow>
          resolve_guru gd gid db = (Some g, db1) \<and> (matches (guru_query gid) g \<longrightarrow> g \<noteq> []))
    \<and> ((r = Inr [] \<or> (\<exists>e. r = Inl e)) \<and> gid \<in> set known_archetypes \<longrightarrow>
          (\<exists>n. resolve_guru gd gid db
                = (Some [(ustr ''name'', VStr n), (ustr ''archetype'', VStr gid)], db1)))
    \<and> ((r = Inr [] \<or> (\<exists>e. r = Inl e)) \<and> gid \<notin> set known_archetypes \<longrightarrow>
          resolve_guru gd gid db = (None, db1)
          \<and> (\<forall>cd payload. guru_id payload = gid \<longrightarrow>
                ask_guru U gd cd payload db = (Inl (HTTPException 404 (ustr ''Guru not found'')), db1)))"
proof -
  have m: "\<forall>d. matches (guru_query gid) d \<longleftrightarrow>
            (map_of d (ustr ''archetype'') = Some (VStr gid) \<or> map_of d (ustr ''_id'') = Some (VStr gid))"
    by (simp add: guru_query_def)
  have s: "\<forall>g gs. r = Inr (g # gs) \<longrightarrow>
          resolve_guru gd gid db = (Some g, db1) \<and> (matches (guru_query gid) g \<longrightarrow> g \<noteq> [])"
    using assms by (auto simp: resolve_guru_def guru_query_def)
  have k: "(r = Inr [] \<or> (\<exists>e. r = Inl e)) \<and> gid \<in> set known_archetypes \<longrightarrow>
          (\<exists>n. resolve_guru gd gid db
                = (Some [(ustr ''name'', VStr n), (ustr ''archetype'', VStr gid)], db1))"
    using resolve_guru_fallback [where gd = gd and db = db, OF assms] find_fallback_known [of gid]
    by auto
  have u: "(r = Inr [] \<or> (\<exists>e. r = Inl e)) \<and> gid \<notin> set known_archetypes \<longrightarrow>
          resolve_guru gd gid db = (None, db1)
          \<and> (\<forall>cd payload. guru_id payload = gid \<longrightarrow>
                ask_guru U gd cd payload db = (Inl (HTTPException 404 (ustr ''Guru not found'')), db1))"
    using resolve_guru_fallback [where gd = gd and db = db, OF assms] find_fallback_unknown [of gid]
    by (auto simp: ask_guru_unresolved)
  show ?thesis
    by (rule conjI [OF m conjI [OF s conjI [OF k u]]])
qed

theorem persona_resolution_witness:
  "resolve_guru store_get_documents (ustr ''oracle'') oracle_store
     = (Some [(ustr ''name'', VStr (ustr ''Oracle'')), (ustr ''archetype'', VStr (ustr ''oracle'')), (ustr ''_id'', VStr (ustr ''g1''))],
        oracle_store\<lparr>clock := 1\<rparr>)
   \<and> (\<exists>n. resolve_guru store_get_documents (ustr ''monk'') (example_store\<lparr>outage := \<lambda>n. True\<rparr>)
          = (Some [(ustr ''name'', VStr n), (ustr ''archetype'', VStr (ustr ''monk''))],
             example_store\<lparr>outage := \<lambda>n. True, clock := 1\<rparr>))
   \<and> ask_guru sample_table store_get_documents store_create_document
        (example_request\<lparr>guru_id := (ustr ''unknown-persona-xyz'')\<rparr>) example_store
     = (Inl (HTTPException 404 (ustr ''Guru not found'')), example_store\<lparr>clock := 1\<rparr>)"
proof -
  have q1: "store_get_documents (ustr ''guru'') (Some (guru_query (ustr ''oracle''))) oracle_store
      = (Inr [[(ustr ''name'', VStr (ustr ''Oracle'')), (ustr ''archetype'', VStr (ustr ''oracle'')), (ustr ''_id'', VStr (ustr ''g1''))],
              [(ustr ''name'', VStr (ustr ''Second Oracle'')), (ustr ''archetype'', VStr (ustr ''oracle'')),
               (ustr ''_id'', VStr (ustr ''g2''))]],
         oracle_store\<lparr>clock := 1\<rparr>)"
    by (simp add: store_get_documents_def select_def guru_query_def oracle_store_def
          example_store_def)
  have q2: "store_get_documents (ustr ''guru'') (Some (guru_query (ustr ''monk'')))
        (example_store\<lparr>outage := \<lambda>n. True\<rparr>)
      = (Inl StoreError, example_store\<lparr>outage := \<lambda>n. True, clock := 1\<rparr>)"
    by (simp add: store_get_documents_def example_store_def)
  have q3: "store_get_documents (ustr ''guru'') (Some (guru_query (ustr ''unknown-persona-xyz''))) example_store
      = (Inr [], example_store\<lparr>clock := 1\<rparr>)"
    by (simp add: store_get_documents_def select_def example_store_def)
  have k: "(ustr ''monk'') \<in> set known_archetypes" "(ustr ''unknown-persona-xyz'') \<notin> set known_archetypes"
    by (simp_all add: known_archetypes_def)
  have g: "guru_id (example_request\<lparr>guru_id := (ustr ''unknown-persona-xyz'')\<rparr>) = (ustr ''unknown-persona-xyz'')"
    by simp
  note i1 = persona_resolution [where gd = store_get_documents and db = oracle_store, OF q1,
      THEN conjunct2, THEN conjunct1]
  note i2 = persona_resolution [where gd = store_get_documents
      and db = "example_store\<lparr>outage := \<lambda>n. True\<rparr>", OF q2,
      THEN conjunct2, THEN conjunct2, THEN conjunct1]
  note i3 = persona_resolution [where gd = store_get_documents and db = example_store, OF q3,
      THEN conjunct2, THEN conjunct2, THEN conjunct2]
  from i1 have c1: "resolve_guru store_get_documents (ustr ''oracle'') oracle_store
     = (Some [(ustr ''name'', VStr (ustr ''Oracle'')), (ustr ''archetype'', VStr (ustr ''oracle'')), (ustr ''_id'', VStr (ustr ''g1''))],
        oracle_store\<lparr>clock := 1\<rparr>)"
    by simp
  from i2 k(1) have c2: "\<exists>n. resolve_guru store_get_documents (ustr ''monk'')
          (example_store\<lparr>outage := \<lambda>n. True\<rparr>)
        = (Some [(ustr ''name'', VStr n), (ustr ''archetype'', VStr (ustr ''monk''))],
           example_store\<lparr>outage := \<lambda>n. True, clock := 1\<rparr>)"
    by simp
  from i3 k(2) have "\<forall>cd payload. guru_id payload = (ustr ''unknown-persona-xyz'') \<longrightarrow>
      ask_guru sample_table store_get_documents cd payload example_store
        = (Inl (HTTPException 404 (ustr ''Guru not found'')), example_store\<lparr>clock := 1\<rparr>)"
    by simp
  with g have c3: "ask_guru sample_table store_get_documents store_create_document
        (example_request\<lparr>guru_id := (ustr ''unknown-persona-xyz'')\<rparr>) example_store
     = (Inl (HTTPException 404 (ustr ''Guru not found'')), example_store\<lparr>clock := 1\<rparr>)"
    by blast
  from c1 c2 c3 show ?thesis
    by (intro conjI)
qed

text \<open>
  C9. When the request supplies a conversation identifier that is not empty, every
  response carries that identifier, and \<^verbatim>\<open>create_document\<close> is applied to the message
  collection only: the outcome and the store left by the request are the same for any
  two \<^verbatim>\<open>create_document\<close> that agree on that collection, whether the message writes
  succeed or raise. On the store of the specification the conversation collection is
  left as it was.
\<close>

theorem supplied_conversation_reused:
  assumes "AskRequest.conversation_id payload = Some c" and "c \<noteq> []"
  shows "(\<forall>resp db'. ask_guru U gd cd payload db = (Inr resp, db') \<longrightarrow>
            AskResponse.conversation_id resp = c)
    \<and> (\<forall>cd'. (\<forall>d t. cd' (ustr ''message'') d t = cd (ustr ''message'') d t) \<longrightarrow>
            ask_guru U gd cd' payload db = ask_guru U gd cd payload db)
    \<and> select (ustr ''conversation'') None
          (snd (ask_guru U store_get_documents store_create_document payload s))
        = select (ustr ''conversation'') None s"
  using assms ask_guru_supplied_id [where U = U and gd = gd and cd = cd and payload = payload
      and db = db and c = c]
    ask_guru_messages_only [where payload = payload and c = c and cd = cd and gd = gd
      and db = db and U = U]
    conversations_kept [OF assms, where q = None and s = s and U = U]
  by blast

theorem supplied_conversation_reused_witness:
  "fst (ask_guru sample_table store_get_documents store_create_document
          (example_request\<lparr>AskRequest.conversation_id := Some (ustr ''c-42'')\<rparr>)
          (example_store\<lparr>outage := \<lambda>n. n = 2\<rparr>))
     = Inr \<lparr>conversation_id = (ustr ''c-42''),
            reply = generate_guru_reply sample_table (ustr ''zen'') (ustr ''I am stressed about work'')\<rparr>
   \<and> select (ustr ''conversation'') None
        (snd (ask_guru sample_table store_get_documents store_create_document
          (example_request\<lparr>AskRequest.conversation_id := Some (ustr ''c-42'')\<rparr>)
          (example_store\<lparr>outage := \<lambda>n. n = 2\<rparr>))) = []"
proof -
  let ?p = "example_request\<lparr>AskRequest.conversation_id := Some (ustr ''c-42'')\<rparr>"
  let ?s = "example_store\<lparr>outage := \<lambda>n. n = 2\<rparr>"
  have c: "AskRequest.conversation_id ?p = Some (ustr ''c-42'')" and n: "(ustr ''c-42'') \<noteq> []"
    by simp_all
  have r: "resolve_guru store_get_documents (guru_id ?p) ?s
      = (Some [(ustr ''name'', VStr (ustr ''Zen Teacher'')), (ustr ''archetype'', VStr (ustr ''zen''))],
         ?s\<lparr>clock := Suc (clock ?s)\<rparr>)"
    by (simp add: resolve_guru_def store_get_documents_def select_def example_store_def
          example_request_def fallback_gurus_def)
  have "\<exists>resp db'. ask_guru sample_table store_get_documents store_create_document ?p ?s = (Inr resp, db')
      \<and> reply resp = generate_guru_reply sample_table (ustr ''zen'') (ustr ''I am stressed about work'')"
    using ask_guru_reply [OF r, where archetype = "ustr ''zen''" and cd = store_create_document
      and U = sample_table]
    by (simp add: dict_get_def example_request_def)
  then obtain resp db' where
    a: "ask_guru sample_table store_get_documents store_create_document ?p ?s = (Inr resp, db')"
    and t: "reply resp = generate_guru_reply sample_table (ustr ''zen'') (ustr ''I am stressed about work'')"
    by blast
  have e: "select (ustr ''conversation'') None ?s = []"
    by (simp add: select_def example_store_def)
  from supplied_conversation_reused [OF c n, where gd = store_get_documents
      and cd = store_create_document and db = ?s and s = ?s and U = sample_table]
    a t e
  show ?thesis
    by (cases resp) auto
qed

text \<open>
  C7. On the store of the specification, with an empty persona collection and no outage
  during the eight operations of two listings: the first listing stores the five
  defaults, each with the next identifier of the store, and returns them in order with
  that identifier under \<open>id\<close>, so by archetype exactly the five; the second listing
  returns the same five and leaves the documents as they are. A write that raises is
  skipped and the seeding goes on with the remaining defaults.
\<close>

theorem seeding_idempotent:
  assumes "select (ustr ''guru'') None s = []" and "\<forall>i<8. \<not> outage s (clock s + i)"
    and "list_gurus store_get_documents store_create_document s = (r1, s1)"
    and "list_gurus store_get_documents store_create_document s1 = (r2, s2)"
  shows "r1 = map (\<lambda>(n, g). g @ [(ustr ''id'', VStr (fresh s n))]) (enumerate (issued s) defaults)
    \<and> map (\<lambda>d. map_of d (ustr ''archetype'')) r1 = map (\<lambda>a. Some (VStr a)) known_archetypes
    \<and> documents s1 = documents s
        @ map (\<lambda>(n, g). (ustr ''guru'', g @ [(ustr ''_id'', VStr (fresh s n))]))
            (enumerate (issued s) defaults)
    \<and> r2 = r1 \<and> documents s2 = documents s1
    \<and> (\<forall>g gs t. outage t (clock t) \<longrightarrow>
          seed store_create_document (g # gs) t
            = seed store_create_document gs (t\<lparr>clock := Suc (clock t)\<rparr>))"
proof -
  let ?new = "map (\<lambda>(n, g). (ustr ''guru'', g @ [(ustr ''_id'', VStr (fresh s n))]))
                (enumerate (issued s) defaults)"
  have o: "\<And>i. i < 8 \<Longrightarrow> \<not> outage s (clock s + i)"
    using assms(2) by blast
  have first: "list_gurus store_get_documents store_create_document s =
    (map (\<lambda>(n, g). g @ [(ustr ''id'', VStr (fresh s n))]) (enumerate (issued s) defaults),
     s\<lparr>documents := documents s @ ?new, issued := issued s + 5, clock := clock s + 7\<rparr>)"
    using assms(1) o by (intro list_gurus_seeds) simp_all
  with assms(3) have r1: "r1 = map (\<lambda>(n, g). g @ [(ustr ''id'', VStr (fresh s n))])
        (enumerate (issued s) defaults)"
    and s1: "s1 = s\<lparr>documents := documents s @ ?new, issued := issued s + 5, clock := clock s + 7\<rparr>"
    by simp_all
  have "select (ustr ''guru'') None s1
      = select (ustr ''guru'') None s @ select (ustr ''guru'') None (s\<lparr>documents := ?new\<rparr>)"
    by (simp add: s1 select_def)
  then have sel: "select (ustr ''guru'') None s1
      = map (\<lambda>(n, g). g @ [(ustr ''_id'', VStr (fresh s n))]) (enumerate (issued s) defaults)"
    using assms(1) by (simp add: select_gurus_stored)
  have "\<not> outage s1 (clock s1)"
    using o [of 7] by (simp add: s1)
  from list_gurus_seeded_again [OF sel this] assms(4)
  have r2: "r2 = map (\<lambda>(n, g). g @ [(ustr ''id'', VStr (fresh s n))]) (enumerate (issued s) defaults)"
    and s2: "s2 = s1\<lparr>clock := Suc (clock s1)\<rparr>"
    by simp_all
  show ?thesis
    using r1 r2 s1 s2 archetypes_listed [of "fresh s" "issued s"] seed_skips_failure
    by simp
qed

theorem seeding_idempotent_witness:
  "map (\<lambda>d. map_of d (ustr ''archetype''))
      (fst (list_gurus store_get_documents store_create_document example_store))
     = map (\<lambda>a. Some (VStr a)) known_archetypes
   \<and> fst (list_gurus store_get_documents store_create_document
        (snd (list_gurus store_get_documents store_create_document example_store)))
     = fst (list_gurus store_get_documents store_create_document example_store)
   \<and> length (documents (snd (list_gurus store_get_documents store_create_document
        (snd (list_gurus store_get_documents store_create_document example_store))))) = 5
   \<and> map (\<lambda>(c, d). map_of d (ustr ''archetype''))
        (documents (seed store_create_document defaults (example_store\<lparr>outage := \<lambda>n. n = 0\<rparr>)))
     = map (\<lambda>a. Some (VStr a)) (tl known_archetypes)"
proof -
  have e: "select (ustr ''guru'') None example_store = []"
    by (simp add: select_def example_store_def)
  have o: "\<forall>i<8. \<not> outage example_store (clock example_store + i)"
    by (simp add: example_store_def)
  obtain r1 s1 where l1: "list_gurus store_get_documents store_create_document example_store = (r1, s1)"
    by (cases "list_gurus store_get_documents store_create_document example_store")
  obtain r2 s2 where l2: "list_gurus store_get_documents store_create_document s1 = (r2, s2)"
    by (cases "list_gurus store_get_documents store_create_document s1")
  have d: "documents example_store = []"
    by (simp add: example_store_def)
  note t = seeding_idempotent [OF e o l1 l2]
  note a = t [THEN conjunct2, THEN conjunct1]
  note d1 = t [THEN conjunct2, THEN conjunct2, THEN conjunct1]
  note same = t [THEN conjunct2, THEN conjunct2, THEN conjunct2, THEN conjunct1]
  note d2 = t [THEN conjunct2, THEN conjunct2, THEN conjunct2, THEN conjunct2, THEN conjunct1]
  note skip = t [THEN conjunct2, THEN conjunct2, THEN conjunct2, THEN conjunct2, THEN conjunct2,
      rule_format]
  let ?t = "example_store\<lparr>outage := \<lambda>n. n = 0\<rparr>"
  have "outage ?t (clock ?t)"
    by (simp add: example_store_def)
  from skip [OF this, of "hd defaults" "tl defaults"]
  have "seed store_create_document defaults ?t
      = seed store_create_document (tl defaults) (?t\<lparr>clock := Suc (clock ?t)\<rparr>)"
    by (simp add: defaults_def)
  moreover have "\<forall>i<length (tl defaults).
      \<not> outage (?t\<lparr>clock := Suc (clock ?t)\<rparr>) (clock (?t\<lparr>clock := Suc (clock ?t)\<rparr>) + i)"
    by (simp add: example_store_def)
  ultimately have sk: "map (\<lambda>(c, d). map_of d (ustr ''archetype''))
        (documents (seed store_create_document defaults ?t))
     = map (\<lambda>a. Some (VStr a)) (tl known_archetypes)"
    by (simp add: seed_store) (simp add: defaults_def known_archetypes_def example_store_def)
  have "length (documents s2) = 5"
    by (simp add: d2 d1 d length_defaults)
  with a same sk show ?thesis
    by (simp add: l1 l2)
qed

end
